theory Spec2Isabelle
  imports Complex_Main
begin

section \<open>Credit and leasing calculator (Credit.py)\<close>

text \<open>
  A shallow embedding of the calculation core of \<^verbatim>\<open>Credit.py\<close>: the data classes,
  \<^verbatim>\<open>SmartCalculator\<close>, \<^verbatim>\<open>ScoringSystem\<close> and \<^verbatim>\<open>ProductConfigurator\<close>.

  Conventions of the embedding.
  \<^item> A Python \<^verbatim>\<open>float\<close> is modelled by an exact \<^typ>\<open>real\<close>: there is no rounding error,
    no NaN and no infinity. Python raises \<^verbatim>\<open>ZeroDivisionError\<close> on a float division by zero,
    and the model returns that error.
  \<^item> A Python \<^verbatim>\<open>int\<close> is an \<^typ>\<open>int\<close>.
  \<^item> A raised exception is the \<open>Inl\<close> branch of a sum type; a returned value is \<open>Inr\<close>.
  \<^item> Message texts (Russian in the source) are constructors of a datatype, one per message.
  \<^item> The wall clock (\<^verbatim>\<open>datetime.now()\<close>) is an argument.
\<close>

subsection \<open>Exceptions and arithmetic of the host language\<close>

datatype py_error = KeyError | ZeroDivisionError | ValueError | TypeError

text \<open>\<^verbatim>\<open>a / b\<close> on numbers.\<close>

definition py_div :: "real \<Rightarrow> real \<Rightarrow> py_error + real" where
  "py_div a b = (if b = 0 then Inl ZeroDivisionError else Inr (a / b))"

text \<open>\<^verbatim>\<open>x ** n\<close> for a float \<open>x\<close> and an int \<open>n\<close>.\<close>

definition py_pow :: "real \<Rightarrow> int \<Rightarrow> py_error + real" where
  "py_pow x n =
     (if 0 \<le> n then Inr (x ^ nat n)
      else if x = 0 then Inl ZeroDivisionError
      else Inr (1 / x ^ nat (- n)))"

text \<open>
  \<^verbatim>\<open>round(x, d)\<close>: the nearest multiple of \<open>10^-d\<close>, a tie going to the even neighbour.
\<close>

definition round_half_even :: "real \<Rightarrow> int" where
  "round_half_even y =
     (let f = \<lfloor>y\<rfloor>; d = y - of_int f
      in if d < 1 / 2 then f
         else if 1 / 2 < d then f + 1
         else if even f then f else f + 1)"

definition py_round :: "real \<Rightarrow> nat \<Rightarrow> real" where
  "py_round x d = of_int (round_half_even (x * 10 ^ d)) / 10 ^ d"

subsection \<open>Data model\<close>

record vehicle =
  brand :: string
  model :: string
  year :: int
  price :: real
  vin :: string
  category :: string

record calculation_parameters =
  financing_type :: string
  amount :: real
  initial_payment :: real
  months :: int
  vehicle :: "vehicle option"
  insurance_included :: bool
  life_insurance :: bool

definition financed_amount :: "calculation_parameters \<Rightarrow> real" where
  "financed_amount params = amount params - initial_payment params"

text \<open>
  One row of the payment schedule. The source stores the due date as the calculation instant
  plus \<open>30 * month\<close> days, formatted; the model keeps the number of days.
\<close>

record schedule_entry =
  month :: int
  date_offset_days :: int
  payment :: real
  principal :: real
  interest :: real
  balance :: real

record conditions =
  cond_base_rate :: real
  cond_vehicle_type :: string
  cond_residual_value :: "real option"
  cond_insurance_included :: bool
  cond_life_insurance :: bool

record calculation_result =
  monthly_payment :: real
  total_payment :: real
  overpayment :: real
  effective_rate :: real
  schedule :: "schedule_entry list"
  approval_status :: string
  approval_probability :: real
  result_conditions :: conditions
  calculation_id :: string

text \<open>The wall clock: the current year and the time stamp \<^verbatim>\<open>%Y%m%d%H%M%S\<close>.\<close>

record clock =
  current_year :: int
  timestamp :: string

subsection \<open>Vehicle.get\_residual\_value\<close>

definition get_residual_value :: "vehicle \<Rightarrow> int \<Rightarrow> real" where
  "get_residual_value v ms =
     (if category v = ''new'' then
        (let years = of_int ms / 12
         in if years \<le> 1 then price v * (80 / 100)
            else price v * (80 / 100 - (years - 1) * (10 / 100)))
      else
        (let years = of_int ms / 12
         in price v * (1 - years * (15 / 100))))"

subsection \<open>SmartCalculator\<close>

datatype param_message =
  AmountNotPositive | InitialPaymentTooLow | TermOutOfRange | UnknownFinancingType | ParamsValid

definition validate_parameters :: "calculation_parameters \<Rightarrow> bool \<times> param_message" where
  "validate_parameters params =
     (if amount params \<le> 0 then (False, AmountNotPositive)
      else if initial_payment params < amount params * (15 / 100) then (False, InitialPaymentTooLow)
      else if months params < 12 \<or> 84 < months params then (False, TermOutOfRange)
      else if financing_type params \<notin> set [''credit'', ''leasing''] then (False, UnknownFinancingType)
      else (True, ParamsValid))"

text \<open>\<^verbatim>\<open>self.base_rates[financing_type][vehicle_type]\<close>; a missing key raises \<^verbatim>\<open>KeyError\<close>.\<close>

definition base_rates :: "(string \<times> (string \<times> real) list) list" where
  "base_rates =
     [(''credit'', [(''new'', 159 / 1000), (''used'', 189 / 1000)]),
      (''leasing'', [(''new'', 149 / 1000), (''used'', 179 / 1000)])]"

definition lookup_base_rate :: "string \<Rightarrow> string \<Rightarrow> py_error + real" where
  "lookup_base_rate ft vt =
     (case map_of base_rates ft of
        None \<Rightarrow> Inl KeyError
      | Some row \<Rightarrow> (case map_of row vt of None \<Rightarrow> Inl KeyError | Some r \<Rightarrow> Inr r))"

definition calculate_annuity_payment :: "real \<Rightarrow> real \<Rightarrow> int \<Rightarrow> py_error + real" where
  "calculate_annuity_payment amt annual_rate ms =
     (let monthly_rate = annual_rate / 12
      in case py_pow (1 + monthly_rate) ms of
           Inl e \<Rightarrow> Inl e
         | Inr pw \<Rightarrow>
             (case py_div (monthly_rate * pw) (pw - 1) of
                Inl e \<Rightarrow> Inl e
              | Inr coefficient \<Rightarrow> Inr (amt * coefficient)))"

definition calculate_effective_rate :: "calculation_parameters \<Rightarrow> real \<Rightarrow> py_error + real" where
  "calculate_effective_rate params mp =
     (let total_cost = mp * of_int (months params)
      in case py_div total_cost (financed_amount params) of
           Inl e \<Rightarrow> Inl e
         | Inr q \<Rightarrow>
             (case py_div 12 (of_int (months params)) of
                Inl e \<Rightarrow> Inl e
              | Inr k \<Rightarrow> Inr ((q - 1) * k * 100)))"

text \<open>
  The loop of \<^verbatim>\<open>generate_schedule\<close>: \<open>schedule_rows mp mr m k b\<close> are the rows of the
  \<open>k\<close> periods that start with period \<open>m\<close> at running balance \<open>b\<close>.
\<close>

fun schedule_rows :: "real \<Rightarrow> real \<Rightarrow> int \<Rightarrow> nat \<Rightarrow> real \<Rightarrow> schedule_entry list" where
  "schedule_rows mp mr m 0 b = []"
| "schedule_rows mp mr m (Suc k) b =
     (let interest_v = b * mr;
          principal_v = mp - interest_v;
          b' = b - principal_v
      in \<lparr> month = m,
           date_offset_days = 30 * m,
           payment = py_round mp 2,
           principal = py_round principal_v 2,
           interest = py_round interest_v 2,
           balance = max 0 (py_round b' 2) \<rparr>
         # schedule_rows mp mr (m + 1) k b')"

definition generate_schedule :: "calculation_parameters \<Rightarrow> real \<Rightarrow> real \<Rightarrow> schedule_entry list" where
  "generate_schedule params mp annual_rate =
     schedule_rows mp (annual_rate / 12) 1 (nat (months params)) (financed_amount params)"

definition generate_calculation_id :: "clock \<Rightarrow> string" where
  "generate_calculation_id clk = ''CALC_'' @ timestamp clk"

text \<open>The rate that \<^verbatim>\<open>calculate\<close> holds in \<^verbatim>\<open>base_rate\<close> after the term adjustment.\<close>

definition vehicle_type_of :: "calculation_parameters \<Rightarrow> string" where
  "vehicle_type_of params = (case vehicle params of Some v \<Rightarrow> category v | None \<Rightarrow> ''used'')"

definition adjusted_rate :: "calculation_parameters \<Rightarrow> py_error + real" where
  "adjusted_rate params =
     (case lookup_base_rate (financing_type params) (vehicle_type_of params) of
        Inl e \<Rightarrow> Inl e
      | Inr base_rate \<Rightarrow>
          Inr (if 60 < months params then base_rate + 2 / 100
               else if months params < 24 then base_rate - 1 / 100
               else base_rate))"

text \<open>The leasing correction: the pair (amount to amortize, residual value).\<close>

definition leasing_split :: "calculation_parameters \<Rightarrow> real \<times> real" where
  "leasing_split params =
     (case vehicle params of
        Some v \<Rightarrow>
          (if financing_type params = ''leasing''
           then (let residual_value = get_residual_value v (months params)
                 in (financed_amount params - residual_value, residual_value))
           else (financed_amount params, 0))
      | None \<Rightarrow> (financed_amount params, 0))"

text \<open>The insurance riders added to the annuity payment.\<close>

definition add_riders :: "calculation_parameters \<Rightarrow> real \<Rightarrow> real" where
  "add_riders params mp =
     (let mp1 = (if insurance_included params then mp + amount params * (5 / 1000) / 12 else mp)
      in if life_insurance params then mp1 + 500 else mp1)"

definition calculate :: "clock \<Rightarrow> calculation_parameters \<Rightarrow> py_error + calculation_result" where
  "calculate clk params =
     (case adjusted_rate params of
        Inl e \<Rightarrow> Inl e
      | Inr base_rate \<Rightarrow>
          (let (financed, residual_value) = leasing_split params
           in case calculate_annuity_payment financed base_rate (months params) of
                Inl e \<Rightarrow> Inl e
              | Inr annuity \<Rightarrow>
                  (let mp = add_riders params annuity;
                       total0 = mp * of_int (months params);
                       total = (if financing_type params = ''leasing''
                                then total0 + residual_value else total0);
                       over = total - financed_amount params
                   in case calculate_effective_rate params mp of
                        Inl e \<Rightarrow> Inl e
                      | Inr eff \<Rightarrow>
                          Inr \<lparr> monthly_payment = py_round mp 2,
                                total_payment = py_round total 2,
                                overpayment = py_round over 2,
                                effective_rate = py_round eff 2,
                                schedule = generate_schedule params mp base_rate,
                                approval_status = ''pending'',
                                approval_probability = 0,
                                result_conditions =
                                  \<lparr> cond_base_rate = py_round (base_rate * 100) 1,
                                    cond_vehicle_type = vehicle_type_of params,
                                    cond_residual_value =
                                      (if 0 < residual_value
                                       then Some (py_round residual_value 2) else None),
                                    cond_insurance_included = insurance_included params,
                                    cond_life_insurance = life_insurance params \<rparr>,
                                calculation_id = generate_calculation_id clk \<rparr>)))"

subsection \<open>ClientData\<close>

text \<open>
  The fields that \<^verbatim>\<open>validate\<close> matches against regular expressions are kept as lists of
  Unicode code points, which is what a Python \<^verbatim>\<open>str\<close> is and what the patterns range over.
  The other text fields are ASCII \<^typ>\<open>string\<close>s.
\<close>

type_synonym ustring = "nat list"

record client_data =
  full_name :: ustring
  birth_date :: string
  passport_series :: ustring
  passport_number :: ustring
  phone :: string
  email :: string
  monthly_income :: real
  employment_type :: string
  experience_months :: int










subsection \<open>ScoringSystem\<close>











subsection \<open>ProductConfigurator\<close>

text \<open>
  The catalog is what \<^verbatim>\<open>json.load\<close> returns (or the literal of \<^verbatim>\<open>_load_products\<close>): a
  dictionary from list names to lists of product dictionaries. A product dictionary is an
  object on the heap; the lists hold references to it, and so does the list that
  \<^verbatim>\<open>get_available_products\<close> returns. A dictionary is an association list in insertion
  order with distinct keys.
\<close>

datatype jval =
  JNull | JBool bool | JNum real | JStr string | JArr "jval list" | JObj "(string \<times> jval) list"

type_synonym pydict = "(string \<times> jval) list"
type_synonym addr = nat
type_synonym heap = "addr \<Rightarrow> pydict"

record configurator =
  products :: "(string \<times> addr list) list"

text \<open>
  \<^verbatim>\<open>d.get(k)\<close> and \<^verbatim>\<open>d[k] = v\<close>: an existing key keeps its place and takes the
  new value, a new key goes to the end.
\<close>

definition dict_get :: "pydict \<Rightarrow> string \<Rightarrow> jval option" where
  "dict_get d k = map_of d k"

fun dict_set :: "pydict \<Rightarrow> string \<Rightarrow> jval \<Rightarrow> pydict" where
  "dict_set [] k v = [(k, v)]"
| "dict_set ((k', v') # d) k v = (if k' = k then (k, v) # d else (k', v') # dict_set d k v)"

text \<open>\<^verbatim>\<open>self.products.get(name, [])\<close>.\<close>

definition product_list :: "configurator \<Rightarrow> string \<Rightarrow> addr list" where
  "product_list cfg name = (case map_of (products cfg) name of None \<Rightarrow> [] | Some l \<Rightarrow> l)"

text \<open>\<^verbatim>\<open>s in t\<close> for two strings: \<open>s\<close> occurs in \<open>t\<close>.\<close>

fun substring_of :: "string \<Rightarrow> string \<Rightarrow> bool" where
  "substring_of s [] = (s = [])"
| "substring_of s (c # cs) = (take (length s) (c # cs) = s \<or> substring_of s cs)"

text \<open>
  \<^verbatim>\<open>s in x\<close> for a string \<open>s\<close> and a JSON value \<open>x\<close>: membership in a list, occurrence in a
  string, a key of an object; \<^verbatim>\<open>TypeError\<close> for a number, a boolean or null.
\<close>

definition py_in :: "string \<Rightarrow> jval \<Rightarrow> py_error + bool" where
  "py_in s x =
     (case x of
        JArr xs \<Rightarrow> Inr (JStr s \<in> set xs)
      | JStr t \<Rightarrow> Inr (substring_of s t)
      | JObj kvs \<Rightarrow> Inr (s \<in> fst ` set kvs)
      | _ \<Rightarrow> Inl TypeError)"

text \<open>The number a JSON value stands for in arithmetic and comparisons with a float.\<close>

definition py_number :: "jval \<Rightarrow> py_error + real" where
  "py_number x =
     (case x of
        JNum y \<Rightarrow> Inr y
      | JBool b \<Rightarrow> Inr (if b then 1 else 0)
      | _ \<Rightarrow> Inl TypeError)"

definition is_product_available ::
  "pydict \<Rightarrow> vehicle \<Rightarrow> client_data \<Rightarrow> py_error + bool" where
  "is_product_available product v client =
     (case py_in (category v)
             (case dict_get product ''available_for'' of None \<Rightarrow> JArr [] | Some x \<Rightarrow> x) of
        Inl e \<Rightarrow> Inl e
      | Inr False \<Rightarrow> Inr False
      | Inr True \<Rightarrow>
          (case py_number (case dict_get product ''min_amount'' of None \<Rightarrow> JNum 0 | Some x \<Rightarrow> x) of
             Inl e \<Rightarrow> Inl e
           | Inr lo \<Rightarrow>
               if price v < lo then Inr False
               else
                 (case (case dict_get product ''max_amount'' of
                          None \<Rightarrow> Inr False
                        | Some x \<Rightarrow> (case py_number x of Inl e \<Rightarrow> Inl e | Inr hi \<Rightarrow> Inr (hi < price v))) of
                    Inl e \<Rightarrow> Inl e
                  | Inr True \<Rightarrow> Inr False
                  | Inr False \<Rightarrow>
                      (case py_number
                              (case dict_get product ''min_initial'' of None \<Rightarrow> JNum 0 | Some x \<Rightarrow> x) of
                         Inl e \<Rightarrow> Inl e
                       | Inr ratio \<Rightarrow> (let min_initial_amount = price v * ratio in Inr True)))))"

text \<open>
  One of the two loops of \<^verbatim>\<open>get_available_products\<close>: over the references \<open>as\<close>, with the
  type name \<open>ty\<close> that the loop writes into each available product.
\<close>

fun check_products ::
  "string \<Rightarrow> vehicle \<Rightarrow> client_data \<Rightarrow> addr list \<Rightarrow> heap \<Rightarrow> py_error + (heap \<times> addr list)" where
  "check_products ty v client [] h = Inr (h, [])"
| "check_products ty v client (a # as) h =
     (case is_product_available (h a) v client of
        Inl e \<Rightarrow> Inl e
      | Inr True \<Rightarrow>
          (case check_products ty v client as (h(a := dict_set (h a) ''type'' (JStr ty))) of
             Inl e \<Rightarrow> Inl e
           | Inr (h', available) \<Rightarrow> Inr (h', a # available))
      | Inr False \<Rightarrow> check_products ty v client as h)"

definition get_available_products ::
  "configurator \<Rightarrow> vehicle \<Rightarrow> client_data \<Rightarrow> heap \<Rightarrow> py_error + (heap \<times> addr list)" where
  "get_available_products cfg v client h =
     (case check_products ''credit'' v client (product_list cfg ''credit_products'') h of
        Inl e \<Rightarrow> Inl e
      | Inr (h1, available1) \<Rightarrow>
          (case check_products ''leasing'' v client (product_list cfg ''leasing_products'') h1 of
             Inl e \<Rightarrow> Inl e
           | Inr (h2, available2) \<Rightarrow> Inr (h2, available1 @ available2)))"

text \<open>
  The default catalog of \<^verbatim>\<open>_load_products\<close>, at the addresses 0, 1 and 2. The display names
  (Cyrillic in the source) are transliterated.
\<close>

definition credit_std :: pydict where
  "credit_std =
     [(''id'', JStr ''credit_std''), (''name'', JStr ''Standartnyi kredit''),
      (''min_amount'', JNum 100000), (''max_amount'', JNum 5000000),
      (''min_months'', JNum 12), (''max_months'', JNum 84),
      (''min_initial'', JNum (15 / 100)),
      (''available_for'', JArr [JStr ''new'', JStr ''used''])]"

definition credit_premium :: pydict where
  "credit_premium =
     [(''id'', JStr ''credit_premium''), (''name'', JStr ''Premium kredit''),
      (''min_amount'', JNum 500000), (''max_amount'', JNum 10000000),
      (''min_months'', JNum 12), (''max_months'', JNum 60),
      (''min_initial'', JNum (20 / 100)),
      (''available_for'', JArr [JStr ''new''])]"

definition leasing_std :: pydict where
  "leasing_std =
     [(''id'', JStr ''leasing_std''), (''name'', JStr ''Standartnyi lizing''),
      (''min_amount'', JNum 300000), (''max_amount'', JNum 10000000),
      (''min_months'', JNum 12), (''max_months'', JNum 60),
      (''min_initial'', JNum (10 / 100)), (''residual_percent'', JNum (20 / 100)),
      (''available_for'', JArr [JStr ''new'', JStr ''used''])]"

definition default_heap :: heap where
  "default_heap = (\<lambda>_. [])(0 := credit_std, 1 := credit_premium, 2 := leasing_std)"

definition default_configurator :: configurator where
  "default_configurator =
     \<lparr> products = [(''credit_products'', [0, 1]), (''leasing_products'', [2])] \<rparr>"

section \<open>Reference definitions and inputs for the statements\<close>

subsection \<open>The specification's formulas\<close>

text \<open>The annuity payment for principal \<open>P\<close>, monthly rate \<open>r\<close> and \<open>n\<close> periods.\<close>

definition annuity_formula :: "real \<Rightarrow> real \<Rightarrow> nat \<Rightarrow> real" where
  "annuity_formula P r n = P * (r * (1 + r) ^ n) / ((1 + r) ^ n - 1)"

text \<open>
  The amount to amortize: the financed amount, less the residual value at the end of the
  term for leasing with a vehicle.
\<close>

definition amortized_amount :: "calculation_parameters \<Rightarrow> real" where
  "amortized_amount p =
     (if financing_type p = ''leasing''
      then (case vehicle p of
              Some v \<Rightarrow> financed_amount p - get_residual_value v (months p)
            | None \<Rightarrow> financed_amount p)
      else financed_amount p)"

definition residual_part :: "calculation_parameters \<Rightarrow> real" where
  "residual_part p =
     (if financing_type p = ''leasing''
      then (case vehicle p of Some v \<Rightarrow> get_residual_value v (months p) | None \<Rightarrow> 0)
      else 0)"

text \<open>The rate table and the term adjustment, as the specification lists them.\<close>

definition table_rate :: "string \<Rightarrow> string \<Rightarrow> real" where
  "table_rate ft vc =
     (if ft = ''credit'' \<and> vc = ''new'' then 159 / 1000
      else if ft = ''credit'' \<and> vc = ''used'' then 189 / 1000
      else if ft = ''leasing'' \<and> vc = ''new'' then 149 / 1000
      else 179 / 1000)"

definition term_adjustment :: "int \<Rightarrow> real" where
  "term_adjustment n = (if 60 < n then 2 / 100 else if n < 24 then - (1 / 100) else 0)"

text \<open>The rate after selection and adjustment.\<close>

definition selected_rate :: "calculation_parameters \<Rightarrow> real" where
  "selected_rate p =
     table_rate (financing_type p) (case vehicle p of None \<Rightarrow> ''used'' | Some v \<Rightarrow> category v)
     + term_adjustment (months p)"

text \<open>
  The monthly payment (the annuity of the amount to amortize, plus the riders) and the total
  (payment times term, plus the residual value for leasing), before rounding.
\<close>

definition expected_payment :: "calculation_parameters \<Rightarrow> real" where
  "expected_payment p =
     annuity_formula (amortized_amount p) (selected_rate p / 12) (nat (months p))
     + (if insurance_included p then amount p * (5 / 1000) / 12 else 0)
     + (if life_insurance p then 500 else 0)"

definition expected_total :: "calculation_parameters \<Rightarrow> real" where
  "expected_total p = expected_payment p * of_int (months p) + residual_part p"

text \<open>
  A valid parameter set: the validation passes, the financed amount is positive and the
  category of an attached vehicle is one of the two of the data model.
\<close>

definition valid_parameter_set :: "calculation_parameters \<Rightarrow> bool" where
  "valid_parameter_set p =
     (fst (validate_parameters p) \<and> 0 < financed_amount p \<and>
      (case vehicle p of None \<Rightarrow> True | Some v \<Rightarrow> category v = ''new'' \<or> category v = ''used''))"

text \<open>
  The variable \<open>balance\<close> of \<^verbatim>\<open>generate_schedule\<close> after \<open>k\<close> periods, before any
  rounding for display.
\<close>

fun running_balance :: "real \<Rightarrow> real \<Rightarrow> nat \<Rightarrow> real \<Rightarrow> real" where
  "running_balance mp mr 0 b = b"
| "running_balance mp mr (Suc k) b = running_balance mp mr k (b - (mp - b * mr))"







text \<open>
  The filter of the catalog matcher: the category of the vehicle is in the eligible
  categories of the product and its price lies within [min_amount, max_amount].
\<close>

definition product_matches :: "pydict \<Rightarrow> vehicle \<Rightarrow> bool" where
  "product_matches d v =
     (case dict_get d ''available_for'' of
        Some (JArr cats) \<Rightarrow>
          (case dict_get d ''min_amount'' of
             Some (JNum lo) \<Rightarrow>
               (case dict_get d ''max_amount'' of
                  Some (JNum hi) \<Rightarrow>
                    JStr (category v) \<in> set cats \<and> lo \<le> price v \<and> price v \<le> hi
                | _ \<Rightarrow> False)
           | _ \<Rightarrow> False)
      | _ \<Rightarrow> False)"

text \<open>
  A product definition of the data model: a list of eligible categories, numeric bounds, and
  a numeric minimum-initial ratio when there is one.
\<close>

definition well_formed_product :: "pydict \<Rightarrow> bool" where
  "well_formed_product d =
     ((case dict_get d ''available_for'' of Some (JArr cats) \<Rightarrow> True | _ \<Rightarrow> False) \<and>
      (case dict_get d ''min_amount'' of Some (JNum lo) \<Rightarrow> True | _ \<Rightarrow> False) \<and>
      (case dict_get d ''max_amount'' of Some (JNum hi) \<Rightarrow> True | _ \<Rightarrow> False) \<and>
      (case dict_get d ''min_initial'' of
         None \<Rightarrow> True | Some (JNum x) \<Rightarrow> True | Some _ \<Rightarrow> False))"

definition catalog_well_formed :: "configurator \<Rightarrow> heap \<Rightarrow> bool" where
  "catalog_well_formed cfg h =
     list_all (\<lambda>a. well_formed_product (h a))
       (product_list cfg ''credit_products'' @ product_list cfg ''leasing_products'')"

text \<open>The products of the list \<open>name\<close> that pass the filter, in the order of the list.\<close>

definition matching_products :: "configurator \<Rightarrow> heap \<Rightarrow> vehicle \<Rightarrow> string \<Rightarrow> addr list" where
  "matching_products cfg h v name = filter (\<lambda>a. product_matches (h a) v) (product_list cfg name)"

text \<open>The heap after a loop has written the type name \<open>ty\<close> into the products \<open>as\<close>.\<close>

definition stamp :: "string \<Rightarrow> addr list \<Rightarrow> heap \<Rightarrow> heap" where
  "stamp ty as h = (\<lambda>x. if x \<in> set as then dict_set (h x) ''type'' (JStr ty) else h x)"

text \<open>The heap after a call: the matching products carry the type of their list.\<close>

definition catalog_after :: "configurator \<Rightarrow> heap \<Rightarrow> vehicle \<Rightarrow> heap" where
  "catalog_after cfg h v =
     stamp ''leasing'' (matching_products cfg h v ''leasing_products'')
       (stamp ''credit'' (matching_products cfg h v ''credit_products'') h)"

subsection \<open>Concrete inputs\<close>

definition new_car :: vehicle where
  "new_car = \<lparr> brand = ''Lada'', model = ''Vesta'', year = 2024, price = 1000000,
               vin = ''XTA00000000000001'', category = ''new'' \<rparr>"

definition used_car :: vehicle where
  "used_car = \<lparr> brand = ''Lada'', model = ''Granta'', year = 2018, price = 50000,
                vin = ''XTA00000000000002'', category = ''used'' \<rparr>"

definition example_params :: calculation_parameters where
  "example_params =
     \<lparr> financing_type = ''credit'', amount = 1000000, initial_payment = 200000, months = 36,
       vehicle = None, insurance_included = False, life_insurance = False \<rparr>"

definition example_clock :: clock where
  "example_clock = \<lparr> current_year = 2025, timestamp = ''20250101120000'' \<rparr>"


definition example_client :: client_data where
  "example_client =
     \<lparr> full_name = [1048, 1074, 1072, 1085, 1086, 1074, 32, 1048, 1074, 1072, 1085, 32,
                     1048, 1074, 1072, 1085, 1086, 1074, 1080, 1095],
       birth_date = ''15.03.1990'',
       passport_series = [49, 50, 51, 52],
       passport_number = [53, 54, 55, 56, 57, 48],
       phone = ''+70000000000'', email = ''ivanov@example.org'',
       monthly_income = 100000, employment_type = ''employed'', experience_months = 36 \<rparr>"

definition leasing_params :: calculation_parameters where
  "leasing_params =
     \<lparr> financing_type = ''leasing'', amount = 1000000, initial_payment = 200000, months = 72,
       vehicle = Some new_car, insurance_included = True, life_insurance = False \<rparr>"

text \<open>The example with the comprehensive-insurance rider, which is the default of the source.\<close>

definition insured_params :: calculation_parameters where
  "insured_params = example_params \<lparr> insurance_included := True \<rparr>"


section \<open>Auxiliary facts\<close>

subsection \<open>Rounding, rates and the value of calculate\<close>

lemma round_half_even_eqI:
  assumes "of_int k - 1 / 2 < y" "y < of_int k + 1 / 2"
  shows "round_half_even y = k"
proof -
  have "\<lfloor>y\<rfloor> = k \<or> \<lfloor>y\<rfloor> = k - 1" using assms by linarith
  then show ?thesis
  proof
    assume "\<lfloor>y\<rfloor> = k"
    then show ?thesis using assms by (simp add: round_half_even_def Let_def)
  next
    assume "\<lfloor>y\<rfloor> = k - 1"
    then show ?thesis using assms by (simp add: round_half_even_def Let_def)
  qed
qed

lemma py_round_eqI:
  assumes "of_int k - 1 / 2 < x * 10 ^ d" "x * 10 ^ d < of_int k + 1 / 2"
  shows "py_round x d = of_int k / 10 ^ d"
  using round_half_even_eqI [OF assms] by (simp add: py_round_def)

lemma round_half_even_of_int [simp]: "round_half_even (of_int k) = k"
  by (rule round_half_even_eqI) simp_all

lemma lookup_base_rate_cases:
  "lookup_base_rate ft vt =
     (if (ft = ''credit'' \<or> ft = ''leasing'') \<and> (vt = ''new'' \<or> vt = ''used'')
      then Inr (table_rate ft vt) else Inl KeyError)"
  by (simp add: lookup_base_rate_def base_rates_def table_rate_def)

lemma adjusted_rate_cases:
  "adjusted_rate p =
     (if (financing_type p = ''credit'' \<or> financing_type p = ''leasing'') \<and>
         (vehicle_type_of p = ''new'' \<or> vehicle_type_of p = ''used'')
      then Inr (table_rate (financing_type p) (vehicle_type_of p) + term_adjustment (months p))
      else Inl KeyError)"
  by (simp add: adjusted_rate_def lookup_base_rate_cases term_adjustment_def)

lemma table_rate_bounds: "149 / 1000 \<le> table_rate ft vc \<and> table_rate ft vc \<le> 189 / 1000"
  by (simp add: table_rate_def)

lemma adjusted_rate_pos:
  assumes "adjusted_rate p = Inr rate"
  shows "0 < rate"
proof -
  have "rate = table_rate (financing_type p) (vehicle_type_of p) + term_adjustment (months p)"
    using assms by (simp add: adjusted_rate_cases split: if_splits)
  moreover have "- (1 / 100) \<le> term_adjustment (months p)"
    by (simp add: term_adjustment_def)
  ultimately show ?thesis
    using table_rate_bounds [of "financing_type p" "vehicle_type_of p"] by linarith
qed

lemma leasing_split_eq: "leasing_split p = (amortized_amount p, residual_part p)"
  by (simp add: leasing_split_def amortized_amount_def residual_part_def Let_def
      split: option.splits)

lemma growth_gt_one:
  fixes r :: real
  assumes "0 < r" "0 < n"
  shows "1 < (1 + r) ^ n"
  using assms by (simp add: one_less_power)

lemma annuity_payment_value:
  assumes "0 < rate" "0 < ms"
  shows "calculate_annuity_payment amt rate ms = Inr (annuity_formula amt (rate / 12) (nat ms))"
proof -
  have "1 < (1 + rate / 12) ^ nat ms"
    using assms by (intro growth_gt_one) simp_all
  then have ne: "(1 + rate / 12) ^ nat ms - 1 \<noteq> 0" by linarith
  have pw: "py_pow (1 + rate / 12) ms = Inr ((1 + rate / 12) ^ nat ms)"
    using assms by (simp add: py_pow_def)
  show ?thesis
    unfolding calculate_annuity_payment_def Let_def pw py_div_def annuity_formula_def
    using ne by simp
qed

lemma effective_rate_value:
  assumes "0 < months p" "financed_amount p \<noteq> 0"
  shows "calculate_effective_rate p mp =
           Inr ((mp * of_int (months p) / financed_amount p - 1) * (12 / of_int (months p)) * 100)"
  using assms by (simp add: calculate_effective_rate_def py_div_def Let_def)

lemma calculate_value:
  assumes "adjusted_rate p = Inr rate" "0 < months p" "financed_amount p \<noteq> 0"
  defines "mp \<equiv> add_riders p (annuity_formula (amortized_amount p) (rate / 12) (nat (months p)))"
  defines "tot \<equiv> mp * of_int (months p) + residual_part p"
  shows "calculate clk p =
     Inr \<lparr> monthly_payment = py_round mp 2,
           total_payment = py_round tot 2,
           overpayment = py_round (tot - financed_amount p) 2,
           effective_rate =
             py_round ((mp * of_int (months p) / financed_amount p - 1) * (12 / of_int (months p)) * 100) 2,
           schedule = generate_schedule p mp rate,
           approval_status = ''pending'',
           approval_probability = 0,
           result_conditions =
             \<lparr> cond_base_rate = py_round (rate * 100) 1,
               cond_vehicle_type = vehicle_type_of p,
               cond_residual_value =
                 (if 0 < residual_part p then Some (py_round (residual_part p) 2) else None),
               cond_insurance_included = insurance_included p,
               cond_life_insurance = life_insurance p \<rparr>,
           calculation_id = generate_calculation_id clk \<rparr>"
proof -
  have rate: "0 < rate" using assms(1) by (rule adjusted_rate_pos)
  have res: "financing_type p \<noteq> ''leasing'' \<Longrightarrow> residual_part p = 0"
    by (simp add: residual_part_def)
  show ?thesis
    unfolding calculate_def
    using res
    by (simp add: assms(1) leasing_split_eq annuity_payment_value [OF rate assms(2)]
        effective_rate_value [OF assms(2,3)] Let_def mp_def tot_def)
qed

lemma round_half_even_numeral [simp]: "round_half_even (numeral n) = numeral n"
  using round_half_even_of_int [of "numeral n"] by simp

lemma calculate_uses_rate:
  assumes "calculate clk p = Inr res" "adjusted_rate p = Inr rate"
  shows "cond_base_rate (result_conditions res) = py_round (rate * 100) 1 \<and>
         (\<exists>a. calculate_annuity_payment (amortized_amount p) rate (months p) = Inr a \<and>
              schedule res = generate_schedule p (add_riders p a) rate)"
  using assms
  by (auto simp add: calculate_def leasing_split_eq Let_def split: sum.splits)

lemma disclosed_rate_exact:
  "py_round ((table_rate ft vc + term_adjustment n) * 100) 1 =
     (table_rate ft vc + term_adjustment n) * 100"
  by (simp add: table_rate_def term_adjustment_def py_round_def)



subsection \<open>The annuity of the example: 800000 at 18.9% over 36 months\<close>

lemma ratio_bounds:
  fixes N D :: real
  assumes "0 < D" "D < N" "0 < b" "0 < b'"
    and "a * (N - D) < b * (c * N)" "b' * (c * N) < a' * (N - D)"
  shows "a / b < c * (N / D) / (N / D - 1) \<and> c * (N / D) / (N / D - 1) < a' / b'"
proof -
  have "c * (N / D) / (N / D - 1) = c * N / (N - D)"
    using assms(1,2) by (simp add: field_simps)
  then show ?thesis using assms by (simp add: field_simps)
qed

lemma pow_4063_36: "(4063::real) ^ 36 = 8288684399986540405513138306402079093752151559599061113686985154784794203462517424094587272132560236629854937636320249579584986241"
  by simp

lemma pow_4000_36: "(4000::real) ^ 36 = 4722366482869645213696000000000000000000000000000000000000000000000000000000000000000000000000000000000000000000000000000000000000"
  by simp

lemma example_annuity_bounds:
  "29284384 / 1000 < annuity_formula 800000 (189 / 1000 / 12) 36 \<and>
   annuity_formula 800000 (189 / 1000 / 12) 36 < 292843841 / 10000"
proof -
  have base: "(1 + 189 / 1000 / 12 :: real) = 4063 / 4000" by simp
  have shape: "800000 * (189 / 1000 / 12 * X) / (X - 1) = 12600 * X / (X - 1)" for X :: real
    by simp
  have "29284384 / 1000 < (12600::real) * (4063 ^ 36 / 4000 ^ 36) / (4063 ^ 36 / 4000 ^ 36 - 1) \<and>
      (12600::real) * (4063 ^ 36 / 4000 ^ 36) / (4063 ^ 36 / 4000 ^ 36 - 1) < 292843841 / 10000"
    by (rule ratio_bounds; simp only: pow_4063_36 pow_4000_36; simp)
  then show ?thesis
    unfolding annuity_formula_def base shape power_divide .
qed

lemma example_payment_rounded:
  "py_round (annuity_formula 800000 (189 / 1000 / 12) 36) 2 = 2928438 / 100"
proof -
  have "py_round (annuity_formula 800000 (189 / 1000 / 12) 36) 2 = of_int 2928438 / 10 ^ 2"
    using example_annuity_bounds by (intro py_round_eqI) simp_all
  then show ?thesis by simp
qed

subsection \<open>The schedule loop\<close>

lemma round_half_even_close: "\<bar>of_int (round_half_even y) - y\<bar> \<le> 1 / 2"
proof -
  have "of_int \<lfloor>y\<rfloor> \<le> y" "y < of_int \<lfloor>y\<rfloor> + 1" by linarith+
  then show ?thesis
    by (auto simp add: round_half_even_def Let_def)
qed

lemma py_round_close: "\<bar>py_round x 2 - x\<bar> \<le> 1 / 200"
proof -
  have "\<bar>of_int (round_half_even (x * 100)) - x * 100\<bar> \<le> 1 / 2"
    by (rule round_half_even_close)
  then show ?thesis by (simp add: py_round_def field_simps abs_le_iff)
qed

lemma length_schedule_rows: "length (schedule_rows mp mr m k b) = k"
  by (induction k arbitrary: m b) (simp_all add: Let_def)

lemma principal_sum_close:
  "\<bar>sum_list (map principal (schedule_rows mp mr m k b)) - (b - running_balance mp mr k b)\<bar>
     \<le> real k / 200"
proof (induction k arbitrary: m b)
  case 0
  show ?case by simp
next
  case (Suc k)
  let ?p = "mp - b * mr"
  have step: "\<bar>py_round ?p 2 - ?p\<bar> \<le> 1 / 200" by (rule py_round_close)
  have ih: "\<bar>sum_list (map principal (schedule_rows mp mr (m + 1) k (b - ?p)))
      - (b - ?p - running_balance mp mr k (b - ?p))\<bar> \<le> real k / 200"
    by (rule Suc.IH)
  have rows: "sum_list (map principal (schedule_rows mp mr m (Suc k) b)) =
      py_round ?p 2 + sum_list (map principal (schedule_rows mp mr (m + 1) k (b - ?p)))"
    by (simp add: Let_def)
  have rb: "running_balance mp mr (Suc k) b = running_balance mp mr k (b - ?p)"
    by simp
  have "real (Suc k) / 200 = real k / 200 + 1 / 200" by simp
  then show ?case unfolding rows rb using step ih by linarith
qed

lemma last_balance:
  "balance (last (schedule_rows mp mr m (Suc k) b)) =
     max 0 (py_round (running_balance mp mr (Suc k) b) 2)"
proof (induction k arbitrary: m b)
  case 0
  show ?case by (simp add: Let_def)
next
  case (Suc k)
  have "schedule_rows mp mr (m + 1) (Suc k) (b - (mp - b * mr)) \<noteq> []"
    by (simp add: Let_def)
  then show ?case
    using Suc.IH [of "m + 1" "b - (mp - b * mr)"]
    by (simp add: Let_def del: schedule_rows.simps(2))
       (simp add: schedule_rows.simps(2) [of mp mr m] Let_def)
qed

lemma running_balance_closed:
  assumes "mr \<noteq> 0"
  shows "running_balance mp mr k b = b * (1 + mr) ^ k - mp * ((1 + mr) ^ k - 1) / mr"
  using assms
proof (induction k arbitrary: b)
  case 0
  show ?case by simp
next
  case (Suc k)
  show ?case
    using Suc.prems by (simp add: Suc.IH [OF Suc.prems] field_simps)
qed

lemma annuity_amortizes:
  assumes "0 < mr" "0 < k"
  shows "running_balance (annuity_formula b mr k) mr k b = 0"
proof -
  have "1 < (1 + mr) ^ k" using assms by (rule growth_gt_one)
  then have ne: "(1 + mr) ^ k - 1 \<noteq> 0" by simp
  have "annuity_formula b mr k * ((1 + mr) ^ k - 1) / mr = b * (1 + mr) ^ k"
    using ne assms(1) by (simp add: annuity_formula_def)
  then show ?thesis
    using assms(1) by (simp add: running_balance_closed)
qed

lemma running_balance_shift:
  assumes "mr \<noteq> 0"
  shows "running_balance (mp + c) mr k b =
           running_balance mp mr k b - c * ((1 + mr) ^ k - 1) / mr"
  using assms by (simp add: running_balance_closed field_simps)

lemma hd_schedule_rows:
  "hd (schedule_rows mp mr m (Suc k) b) =
     \<lparr> month = m, date_offset_days = 30 * m, payment = py_round mp 2,
       principal = py_round (mp - b * mr) 2, interest = py_round (b * mr) 2,
       balance = max 0 (py_round (b - (mp - b * mr)) 2) \<rparr>"
  by (simp add: Let_def)

lemma py_round_zero [simp]: "py_round 0 d = 0"
  by (simp add: py_round_def round_half_even_def)

text \<open>
  Fed with the annuity payment of the balance it starts from, the loop of
  generate_schedule amortizes: the principal components add up to the starting balance up
  to half a cent per row, and the last balance is zero.
\<close>

lemma schedule_rows_amortize:
  assumes "0 < mr" "0 < k"
  shows "\<bar>sum_list (map principal (schedule_rows (annuity_formula b mr k) mr m k b)) - b\<bar>
           \<le> real k / 200 \<and>
         balance (last (schedule_rows (annuity_formula b mr k) mr m k b)) = 0"
proof -
  obtain k' where k: "k = Suc k'" using assms(2) by (cases k) simp_all
  have rb: "running_balance (annuity_formula b mr k) mr k b = 0"
    using assms by (rule annuity_amortizes)
  have "balance (last (schedule_rows (annuity_formula b mr k) mr m k b)) = 0"
    using last_balance [of "annuity_formula b mr k" mr m k' b] rb unfolding k by simp
  moreover have "\<bar>sum_list (map principal (schedule_rows (annuity_formula b mr k) mr m k b)) - b\<bar>
      \<le> real k / 200"
    using principal_sum_close [of "annuity_formula b mr k" mr m k b] rb by simp
  ultimately show ?thesis by simp
qed

subsection \<open>Valid parameter sets and the example\<close>

lemma valid_parameter_set_rate:
  assumes "valid_parameter_set p"
  shows "adjusted_rate p =
           Inr (table_rate (financing_type p) (vehicle_type_of p) + term_adjustment (months p))"
    and "0 < months p" and "financed_amount p \<noteq> 0"
proof -
  have v: "fst (validate_parameters p)" using assms by (simp add: valid_parameter_set_def)
  then have "financing_type p = ''credit'' \<or> financing_type p = ''leasing''" and m: "12 \<le> months p"
    by (simp_all add: validate_parameters_def split: if_splits)
  moreover have "vehicle_type_of p = ''new'' \<or> vehicle_type_of p = ''used''"
    using assms by (simp add: valid_parameter_set_def vehicle_type_of_def split: option.splits)
  ultimately show "adjusted_rate p =
      Inr (table_rate (financing_type p) (vehicle_type_of p) + term_adjustment (months p))"
    by (simp add: adjusted_rate_cases)
  show "0 < months p" using m by simp
  show "financed_amount p \<noteq> 0" using assms by (simp add: valid_parameter_set_def)
qed

lemma add_riders_eq:
  "add_riders p x =
     x + (if insurance_included p then amount p * (5 / 1000) / 12 else 0)
       + (if life_insurance p then 500 else 0)"
  by (simp add: add_riders_def)

lemma valid_calculate_value:
  assumes "valid_parameter_set p"
  shows "\<exists>res. calculate clk p = Inr res \<and>
           monthly_payment res = py_round (expected_payment p) 2 \<and>
           total_payment res = py_round (expected_total p) 2 \<and>
           overpayment res = py_round (expected_total p - financed_amount p) 2 \<and>
           schedule res = generate_schedule p (expected_payment p) (selected_rate p)"
proof -
  have r: "adjusted_rate p = Inr (selected_rate p)"
    using valid_parameter_set_rate(1) [OF assms]
    by (simp add: selected_rate_def vehicle_type_of_def)
  show ?thesis
    unfolding calculate_value [OF r valid_parameter_set_rate(2,3) [OF assms]]
    by (simp add: expected_payment_def expected_total_def add_riders_eq)
qed

lemma example_params_valid: "valid_parameter_set example_params"
  by (simp add: valid_parameter_set_def validate_parameters_def example_params_def
      financed_amount_def)

lemma insured_params_valid: "valid_parameter_set insured_params"
  by (simp add: valid_parameter_set_def validate_parameters_def insured_params_def
      example_params_def financed_amount_def)

lemma leasing_params_valid: "valid_parameter_set leasing_params"
  by (simp add: valid_parameter_set_def validate_parameters_def leasing_params_def
      financed_amount_def new_car_def)

lemma example_expected_payment:
  "expected_payment example_params = annuity_formula 800000 (189 / 1000 / 12) 36"
  "expected_payment insured_params = annuity_formula 800000 (189 / 1000 / 12) 36 + 1250 / 3"
  by (simp_all add: expected_payment_def amortized_amount_def financed_amount_def
      selected_rate_def table_rate_def term_adjustment_def insured_params_def
      example_params_def)

lemma example_calculate_value:
  "\<exists>res. calculate clk example_params = Inr res \<and> monthly_payment res = 2928438 / 100"
  using valid_calculate_value [OF example_params_valid, of clk]
  unfolding example_expected_payment example_payment_rounded by blast

lemma example_growth_lower: "175519 / 100000 < (1 + 189 / 1000 / 12 :: real) ^ 36"
proof -
  have base: "(1 + 189 / 1000 / 12 :: real) = 4063 / 4000" by simp
  have "(175519::real) * 4000 ^ 36 < 100000 * 4063 ^ 36"
    by (simp only: pow_4063_36 pow_4000_36)
  moreover have "(0::real) < 4000 ^ 36" by simp
  ultimately show ?thesis
    unfolding base power_divide by (simp add: pos_less_divide_eq)
qed

subsection \<open>Scoring\<close>











subsection \<open>Dictionaries and the catalog loops\<close>

lemma dict_get_dict_set:
  "dict_get (dict_set d k v) k' = (if k' = k then Some v else dict_get d k')"
  by (induction d) (auto simp add: dict_get_def)

lemma dict_set_overwrite: "dict_set (dict_set d k v) k w = dict_set d k w"
  by (induction d) auto

lemma dict_get_stamped:
  "dict_get (dict_set d ''type'' x) ''available_for'' = dict_get d ''available_for''"
  "dict_get (dict_set d ''type'' x) ''min_amount'' = dict_get d ''min_amount''"
  "dict_get (dict_set d ''type'' x) ''max_amount'' = dict_get d ''max_amount''"
  "dict_get (dict_set d ''type'' x) ''min_initial'' = dict_get d ''min_initial''"
  by (simp_all add: dict_get_dict_set)

lemma is_product_available_stamped:
  "is_product_available (dict_set d ''type'' x) v c = is_product_available d v c"
  unfolding is_product_available_def dict_get_stamped by (rule refl)

lemma product_matches_stamped:
  "product_matches (dict_set d ''type'' x) v = product_matches d v"
  unfolding product_matches_def dict_get_stamped by (rule refl)

lemma well_formed_product_stamped:
  "well_formed_product (dict_set d ''type'' x) = well_formed_product d"
  unfolding well_formed_product_def dict_get_stamped by (rule refl)

lemma is_product_available_matches:
  assumes "well_formed_product d"
  shows "is_product_available d v c = Inr (product_matches d v)"
  using assms
  by (auto simp add: well_formed_product_def is_product_available_def product_matches_def
      py_in_def py_number_def Let_def split: option.splits jval.splits bool.splits)


lemma stamp_step:
  "stamp ty as (h(a := dict_set (h a) ''type'' (JStr ty))) = stamp ty (a # as) h"
  by (rule ext) (simp add: stamp_def dict_set_overwrite)

lemma check_products_value:
  assumes "\<forall>a \<in> set as. is_product_available (h a) v c = Inr (Q a)"
  shows "check_products ty v c as h = Inr (stamp ty (filter Q as) h, filter Q as)"
  using assms
proof (induction as arbitrary: h)
  case Nil
  have "stamp ty [] h = h" by (rule ext) (simp add: stamp_def)
  then show ?case by simp
next
  case (Cons a as)
  have here: "is_product_available (h a) v c = Inr (Q a)" using Cons.prems by simp
  show ?case
  proof (cases "Q a")
    case True
    let ?h1 = "h(a := dict_set (h a) ''type'' (JStr ty))"
    have "\<forall>b \<in> set as. is_product_available (?h1 b) v c = Inr (Q b)"
      using Cons.prems here by (simp add: is_product_available_stamped)
    then have "check_products ty v c as ?h1 = Inr (stamp ty (filter Q as) ?h1, filter Q as)"
      by (rule Cons.IH)
    then show ?thesis using here True by (simp add: stamp_step)
  next
    case False
    have "\<forall>b \<in> set as. is_product_available (h b) v c = Inr (Q b)"
      using Cons.prems by simp
    then have "check_products ty v c as h = Inr (stamp ty (filter Q as) h, filter Q as)"
      by (rule Cons.IH)
    then show ?thesis using here False by simp
  qed
qed

lemma get_available_products_value:
  assumes "\<forall>a \<in> set (product_list cfg ''credit_products'' @ product_list cfg ''leasing_products'').
             is_product_available (h a) v c = Inr (Q a)"
  shows "get_available_products cfg v c h =
           Inr (stamp ''leasing'' (filter Q (product_list cfg ''leasing_products''))
                  (stamp ''credit'' (filter Q (product_list cfg ''credit_products'')) h),
                filter Q (product_list cfg ''credit_products'') @
                filter Q (product_list cfg ''leasing_products''))"
proof -
  let ?h1 = "stamp ''credit'' (filter Q (product_list cfg ''credit_products'')) h"
  have c: "check_products ''credit'' v c (product_list cfg ''credit_products'') h =
      Inr (?h1, filter Q (product_list cfg ''credit_products''))"
    using assms by (intro check_products_value) simp
  have "\<forall>a \<in> set (product_list cfg ''leasing_products'').
      is_product_available (?h1 a) v c = Inr (Q a)"
    using assms by (simp add: stamp_def is_product_available_stamped)
  then have l: "check_products ''leasing'' v c (product_list cfg ''leasing_products'') ?h1 =
      Inr (stamp ''leasing'' (filter Q (product_list cfg ''leasing_products'')) ?h1,
           filter Q (product_list cfg ''leasing_products''))"
    by (rule check_products_value)
  show ?thesis by (simp add: get_available_products_def c l)
qed

lemma catalog_value:
  assumes "catalog_well_formed cfg h"
  shows "get_available_products cfg v c h =
           Inr (catalog_after cfg h v,
                matching_products cfg h v ''credit_products'' @
                matching_products cfg h v ''leasing_products'')"
  unfolding catalog_after_def matching_products_def
proof (rule get_available_products_value)
  show "\<forall>a \<in> set (product_list cfg ''credit_products'' @ product_list cfg ''leasing_products'').
          is_product_available (h a) v c = Inr (product_matches (h a) v)"
    using assms by (simp add: catalog_well_formed_def list_all_iff is_product_available_matches)
qed

lemma catalog_after_stable:
  "catalog_well_formed cfg (catalog_after cfg h v) = catalog_well_formed cfg h"
  "matching_products cfg (catalog_after cfg h v) v name = matching_products cfg h v name"
proof -
  show "catalog_well_formed cfg (catalog_after cfg h v) = catalog_well_formed cfg h"
    by (simp add: catalog_well_formed_def catalog_after_def stamp_def
        well_formed_product_stamped)
  have "product_matches (catalog_after cfg h v a) v = product_matches (h a) v" for a
    by (simp add: catalog_after_def stamp_def product_matches_stamped)
  then show "matching_products cfg (catalog_after cfg h v) v name = matching_products cfg h v name"
    by (simp add: matching_products_def)
qed

lemma catalog_after_idem:
  "catalog_after cfg (catalog_after cfg h v) v = catalog_after cfg h v"
  unfolding catalog_after_def [of cfg "catalog_after cfg h v"] catalog_after_stable
  by (rule ext) (simp add: catalog_after_def stamp_def dict_set_overwrite)

lemma catalog_after_key:
  "dict_get (catalog_after cfg h v a) k =
     (if k = ''type'' \<and> a \<in> set (matching_products cfg h v ''leasing_products'')
      then Some (JStr ''leasing'')
      else if k = ''type'' \<and> a \<in> set (matching_products cfg h v ''credit_products'')
      then Some (JStr ''credit'')
      else dict_get (h a) k)"
  by (simp add: catalog_after_def stamp_def dict_get_dict_set)

subsection \<open>The default catalog\<close>

lemma default_lists:
  "product_list default_configurator ''credit_products'' = [0, 1]"
  "product_list default_configurator ''leasing_products'' = [2]"
  by (simp_all add: product_list_def default_configurator_def)

lemma default_heap_at:
  "default_heap 0 = credit_std" "default_heap 1 = credit_premium" "default_heap 2 = leasing_std"
  "default_heap (Suc 0) = credit_premium"
  by (simp_all add: default_heap_def)

lemma default_catalog_well_formed: "catalog_well_formed default_configurator default_heap"
  by (simp add: catalog_well_formed_def default_lists default_heap_at well_formed_product_def
      dict_get_def credit_std_def credit_premium_def leasing_std_def)


lemma default_matching_new:
  "matching_products default_configurator default_heap new_car ''credit_products'' = [0, 1]"
  "matching_products default_configurator default_heap new_car ''leasing_products'' = [2]"
  by (simp_all add: matching_products_def default_lists default_heap_at product_matches_def
      dict_get_def credit_std_def credit_premium_def leasing_std_def new_car_def)

section \<open>Properties\<close>

subsection \<open>Residual value\<close>

text \<open>
  C6. With \<open>years = elapsedMonths / 12\<close>, the residual value of a new vehicle is 80% of the
  price up to one year and \<open>price * (0.80 - (years - 1) * 0.10)\<close> beyond it; that of a used
  vehicle is \<open>price * (1 - years * 0.15)\<close>. For a new vehicle it is 80% of the price at 0 and
  at 12 months and 70% at 24 months.
\<close>

theorem residual_value_cases:
  "(category v = ''new'' \<and> real_of_int ms / 12 \<le> 1 \<longrightarrow>
      get_residual_value v ms = price v * (80 / 100)) \<and>
   (category v = ''new'' \<and> 1 < real_of_int ms / 12 \<longrightarrow>
      get_residual_value v ms = price v * (80 / 100 - (real_of_int ms / 12 - 1) * (10 / 100))) \<and>
   (category v = ''used'' \<longrightarrow>
      get_residual_value v ms = price v * (1 - real_of_int ms / 12 * (15 / 100))) \<and>
   (category v = ''new'' \<longrightarrow>
      get_residual_value v 0 = price v * (80 / 100) \<and>
      get_residual_value v 12 = price v * (80 / 100) \<and>
      get_residual_value v 24 = price v * (70 / 100))"
  by (simp add: get_residual_value_def Let_def)

theorem residual_value_cases_witness:
  "get_residual_value new_car 6 = 800000 \<and>
   get_residual_value new_car 12 = 800000 \<and>
   get_residual_value new_car 24 = 700000 \<and>
   get_residual_value new_car 36 = 600000 \<and>
   get_residual_value used_car 24 = 35000"
  using residual_value_cases [of new_car 6] residual_value_cases [of new_car 36]
    residual_value_cases [of used_car 24]
  by (simp add: new_car_def used_car_def)

subsection \<open>Validation of the parameters\<close>



subsection \<open>Validation of the client\<close>





subsection \<open>Rate selection\<close>

text \<open>
  C4. For a financing type of the table and a vehicle category of the table (``used'' when no
  vehicle is attached), the annual rate that \<open>calculate\<close> uses is the table value (credit/new
  15.9%, credit/used 18.9%, leasing/new 14.9%, leasing/used 17.9%) plus 2 points for a term
  above 60 months, minus 1 point for a term below 24 months, unchanged otherwise; the result
  discloses that rate in per cent.
\<close>

theorem calculate_rate_selection:
  assumes "financing_type p = ''credit'' \<or> financing_type p = ''leasing''"
    and "case vehicle p of None \<Rightarrow> True | Some v \<Rightarrow> category v = ''new'' \<or> category v = ''used''"
  shows "adjusted_rate p =
           Inr (table_rate (financing_type p)
                  (case vehicle p of None \<Rightarrow> ''used'' | Some v \<Rightarrow> category v)
                + (if 60 < months p then 2 / 100 else if months p < 24 then - (1 / 100) else 0)) \<and>
         table_rate ''credit'' ''new'' = 159 / 1000 \<and>
         table_rate ''credit'' ''used'' = 189 / 1000 \<and>
         table_rate ''leasing'' ''new'' = 149 / 1000 \<and>
         table_rate ''leasing'' ''used'' = 179 / 1000 \<and>
         (\<forall>clk res. calculate clk p = Inr res \<longrightarrow>
            cond_base_rate (result_conditions res) =
              100 * (table_rate (financing_type p)
                       (case vehicle p of None \<Rightarrow> ''used'' | Some v \<Rightarrow> category v)
                     + (if 60 < months p then 2 / 100
                        else if months p < 24 then - (1 / 100) else 0)))"
proof -
  have vt: "vehicle_type_of p = (case vehicle p of None \<Rightarrow> ''used'' | Some v \<Rightarrow> category v)"
    by (simp add: vehicle_type_of_def)
  have ok: "vehicle_type_of p = ''new'' \<or> vehicle_type_of p = ''used''"
    using assms(2) by (simp add: vehicle_type_of_def split: option.splits)
  have ar: "adjusted_rate p =
      Inr (table_rate (financing_type p) (vehicle_type_of p) + term_adjustment (months p))"
    using assms(1) ok by (simp add: adjusted_rate_cases)
  have disclosed: "cond_base_rate (result_conditions res) =
      100 * (table_rate (financing_type p) (vehicle_type_of p) + term_adjustment (months p))"
    if "calculate clk p = Inr res" for clk res
    using calculate_uses_rate [OF that ar] disclosed_rate_exact by simp
  have tbl: "table_rate ''credit'' ''new'' = 159 / 1000 \<and>
         table_rate ''credit'' ''used'' = 189 / 1000 \<and>
         table_rate ''leasing'' ''new'' = 149 / 1000 \<and>
         table_rate ''leasing'' ''used'' = 179 / 1000"
    by (simp add: table_rate_def)
  have adj: "term_adjustment (months p) =
      (if 60 < months p then 2 / 100 else if months p < 24 then - (1 / 100) else 0)"
    by (simp add: term_adjustment_def)
  show ?thesis
    using ar disclosed tbl unfolding vt adj by blast
qed

theorem calculate_rate_selection_witness:
  "adjusted_rate example_params = Inr (189 / 1000) \<and>
   adjusted_rate leasing_params = Inr (169 / 1000) \<and>
   adjusted_rate (example_params \<lparr> months := 12, vehicle := Some used_car \<rparr>) = Inr (179 / 1000) \<and>
   (\<exists>res. calculate example_clock example_params = Inr res \<and>
          cond_base_rate (result_conditions res) = 189 / 10)"
proof -
  obtain res where res: "calculate example_clock example_params = Inr res"
    using example_calculate_value by blast
  have "cond_base_rate (result_conditions res) = 189 / 10"
    using calculate_rate_selection [of example_params] res
    by (simp add: example_params_def)
  moreover have "adjusted_rate example_params = Inr (189 / 1000)"
    using calculate_rate_selection [of example_params] by (simp add: example_params_def)
  moreover have "adjusted_rate leasing_params = Inr (169 / 1000)"
    using calculate_rate_selection [of leasing_params]
    by (simp add: leasing_params_def new_car_def)
  moreover have "adjusted_rate (example_params \<lparr> months := 12, vehicle := Some used_car \<rparr>) =
      Inr (179 / 1000)"
    using calculate_rate_selection [of "example_params \<lparr> months := 12, vehicle := Some used_car \<rparr>"]
    by (simp add: example_params_def used_car_def)
  ultimately show ?thesis using res by blast
qed

subsection \<open>Degenerate inputs\<close>




subsection \<open>Payment and totals\<close>

text \<open>
  C5, as amended. For a valid parameter set \<open>calculate\<close> returns a result. With
  \<open>r = rate / 12\<close>, \<open>n\<close> the term and \<open>P\<close> the financed amount (less the residual value for
  leasing with a vehicle), the payment before riders is \<open>P * r * (1 + r)^n / ((1 + r)^n - 1)\<close>;
  the monthly payment is that plus the riders, rounded to cents; the total is the unrounded
  monthly payment times the term plus the residual value for leasing, rounded; the
  overpayment is the total less the financed amount, rounded. For amount 1,000,000, initial
  payment 200,000, 36 months, credit, no vehicle and no riders the monthly payment is
  29,284.38.
\<close>

theorem calculate_payment_formula:
  assumes "valid_parameter_set p"
  shows "(\<exists>res. calculate clk p = Inr res \<and>
            monthly_payment res = py_round (expected_payment p) 2 \<and>
            total_payment res = py_round (expected_total p) 2 \<and>
            overpayment res = py_round (expected_total p - financed_amount p) 2) \<and>
         (\<exists>res. calculate clk example_params = Inr res \<and>
            monthly_payment res = 2928438 / 100)"
  using valid_calculate_value [OF assms, of clk] example_calculate_value [of clk] by blast

theorem calculate_payment_formula_witness:
  "valid_parameter_set leasing_params \<and>
   (\<exists>res. calculate example_clock leasing_params = Inr res \<and>
      monthly_payment res =
        py_round (annuity_formula 500000 (169 / 1000 / 12) 72 + 1250 / 3) 2 \<and>
      total_payment res =
        py_round ((annuity_formula 500000 (169 / 1000 / 12) 72 + 1250 / 3) * 72 + 300000) 2 \<and>
      overpayment res =
        py_round ((annuity_formula 500000 (169 / 1000 / 12) 72 + 1250 / 3) * 72 + 300000
                  - 800000) 2)"
proof -
  have e: "expected_payment leasing_params =
      annuity_formula 500000 (169 / 1000 / 12) 72 + 1250 / 3"
    by (simp add: expected_payment_def amortized_amount_def financed_amount_def
        selected_rate_def table_rate_def term_adjustment_def get_residual_value_def
        leasing_params_def new_car_def)
  have t: "expected_total leasing_params =
      (annuity_formula 500000 (169 / 1000 / 12) 72 + 1250 / 3) * 72 + 300000"
    unfolding expected_total_def e
    by (simp add: residual_part_def get_residual_value_def leasing_params_def new_car_def)
  have f: "financed_amount leasing_params = 800000"
    by (simp add: financed_amount_def leasing_params_def)
  show ?thesis
    using calculate_payment_formula [OF leasing_params_valid, of example_clock]
      leasing_params_valid
    unfolding e t f by blast
qed

text \<open>
  C5 as stated fails in its example: the monthly payment is 29,284.38, which is 355.45 away
  from 28,928.93.
\<close>

theorem example_payment_differs:
  "map_sum id monthly_payment (calculate example_clock example_params) = Inr (2928438 / 100) \<and>
   355 < \<bar>2928438 / 100 - 2892893 / (100 :: real)\<bar>"
proof -
  obtain res where "calculate example_clock example_params = Inr res"
    "monthly_payment res = 2928438 / 100"
    using example_calculate_value by blast
  then show ?thesis by simp
qed

subsection \<open>The amortization schedule\<close>

text \<open>
  C1 at the insured example (credit, 1,000,000 less 200,000 over 36 months, comprehensive
  insurance included, which is the default). \<open>calculate\<close> hands the payment with the rider
  to \<open>generate_schedule\<close>: the first principal component is 17,101.05, whereas the annuity
  payment less the interest of 12,600 is 16,684.38; the principal components add up to more
  than the financed 800,000 plus 19,978; the running balance ends below -19,978 and only
  the clamp hides it. The loop itself amortizes when it is fed the annuity payment of its
  starting balance (\<open>schedule_rows_amortize\<close>).
\<close>

theorem insured_schedule_overshoots:
  "\<exists>res. calculate example_clock insured_params = Inr res \<and>
     length (schedule res) = 36 \<and>
     interest (hd (schedule res)) = 12600 \<and>
     principal (hd (schedule res)) = 1710105 / 100 \<and>
     py_round (annuity_formula 800000 (189 / 1000 / 12) 36 - 12600) 2 = 1668438 / 100 \<and>
     financed_amount insured_params + 19978 < sum_list (map principal (schedule res)) \<and>
     running_balance (annuity_formula 800000 (189 / 1000 / 12) 36 + 1250 / 3)
       (189 / 1000 / 12) 36 800000 < - 19978"
proof -
  let ?A = "annuity_formula 800000 (189 / 1000 / 12) 36"
  let ?mr = "189 / 1000 / 12 :: real"
  let ?rows = "schedule_rows (?A + 1250 / 3) ?mr 1 36 800000"
  have fin: "financed_amount insured_params = 800000"
    by (simp add: insured_params_def example_params_def financed_amount_def)
  have gen: "generate_schedule insured_params (expected_payment insured_params)
      (selected_rate insured_params) = ?rows"
    unfolding generate_schedule_def example_expected_payment fin
    by (simp add: selected_rate_def table_rate_def term_adjustment_def insured_params_def
        example_params_def)
  obtain res where c: "calculate example_clock insured_params = Inr res"
    and s: "schedule res = ?rows"
    using valid_calculate_value [OF insured_params_valid, of example_clock] unfolding gen
    by blast
  have bounds: "29284384 / 1000 < ?A" "?A < 292843841 / 10000"
    using example_annuity_bounds by simp_all
  have i1: "py_round (800000 * ?mr) 2 = 12600"
    using py_round_eqI [of 1260000 "800000 * ?mr" 2] by simp
  have p1: "py_round (?A + 1250 / 3 - 800000 * ?mr) 2 = 1710105 / 100"
    using py_round_eqI [of 1710105 "?A + 1250 / 3 - 800000 * ?mr" 2] bounds by simp
  have p0: "py_round (?A - 12600) 2 = 1668438 / 100"
    using py_round_eqI [of 1668438 "?A - 12600" 2] bounds by simp
  have rb0: "running_balance ?A ?mr 36 800000 = 0"
    by (rule annuity_amortizes) simp_all
  have rb: "running_balance (?A + 1250 / 3) ?mr 36 800000 =
      - (1250 / 3 * ((1 + ?mr) ^ 36 - 1) / ?mr)"
    using running_balance_shift [of ?mr ?A "1250 / 3" 36 800000] rb0 by simp
  have neg: "running_balance (?A + 1250 / 3) ?mr 36 800000 < - (199785 / 10)"
    unfolding rb using example_growth_lower by simp
  have "\<bar>sum_list (map principal ?rows)
      - (800000 - running_balance (?A + 1250 / 3) ?mr 36 800000)\<bar> \<le> real 36 / 200"
    by (rule principal_sum_close)
  then have total: "800000 + 19978 < sum_list (map principal ?rows)"
    using neg by linarith
  have first: "hd ?rows =
      \<lparr> month = 1, date_offset_days = 30 * 1, payment = py_round (?A + 1250 / 3) 2,
        principal = py_round (?A + 1250 / 3 - 800000 * ?mr) 2,
        interest = py_round (800000 * ?mr) 2,
        balance = max 0 (py_round (800000 - (?A + 1250 / 3 - 800000 * ?mr)) 2) \<rparr>"
    using hd_schedule_rows [of "?A + 1250 / 3" ?mr 1 35 800000] by simp
  have "interest (hd ?rows) = 12600" "principal (hd ?rows) = 1710105 / 100"
    unfolding first using i1 p1 by simp_all
  moreover have "length ?rows = 36" by (rule length_schedule_rows)
  moreover have "running_balance (?A + 1250 / 3) ?mr 36 800000 < - 19978"
    using neg by simp
  ultimately show ?thesis
    using c total p0 unfolding s [symmetric] fin by (intro exI conjI)
qed

subsection \<open>Scoring\<close>



subsection \<open>Catalog matcher\<close>



text \<open>
  C9, as amended. A call writes the key \<open>type\<close> into the stored definition of every
  product it returns and changes nothing else: the products it does not return are as
  before, and every other key of every product is as before. A second call with the same
  inputs returns the same list and leaves the catalog as the first call left it.
\<close>

theorem available_products_pure_except_type:
  assumes "catalog_well_formed cfg h"
  shows "get_available_products cfg v c h =
           Inr (catalog_after cfg h v,
                matching_products cfg h v ''credit_products'' @
                matching_products cfg h v ''leasing_products'') \<and>
         (\<forall>a. a \<notin> set (matching_products cfg h v ''credit_products'' @
                         matching_products cfg h v ''leasing_products'') \<longrightarrow>
              catalog_after cfg h v a = h a) \<and>
         (\<forall>a k. k \<noteq> ''type'' \<longrightarrow> dict_get (catalog_after cfg h v a) k = dict_get (h a) k) \<and>
         (\<forall>a. a \<in> set (matching_products cfg h v ''credit_products'' @
                         matching_products cfg h v ''leasing_products'') \<longrightarrow>
              dict_get (catalog_after cfg h v a) ''type'' = Some (JStr ''credit'') \<or>
              dict_get (catalog_after cfg h v a) ''type'' = Some (JStr ''leasing'')) \<and>
         get_available_products cfg v c (catalog_after cfg h v) =
           Inr (catalog_after cfg h v,
                matching_products cfg h v ''credit_products'' @
                matching_products cfg h v ''leasing_products'')"
proof (intro conjI allI impI)
  show "get_available_products cfg v c h =
      Inr (catalog_after cfg h v,
           matching_products cfg h v ''credit_products'' @
           matching_products cfg h v ''leasing_products'')"
    using assms by (rule catalog_value)
next
  fix a
  assume "a \<notin> set (matching_products cfg h v ''credit_products'' @
                     matching_products cfg h v ''leasing_products'')"
  then show "catalog_after cfg h v a = h a"
    by (simp add: catalog_after_def stamp_def)
next
  fix a k
  assume "k \<noteq> ''type''"
  then show "dict_get (catalog_after cfg h v a) k = dict_get (h a) k"
    by (simp add: catalog_after_key)
next
  fix a
  assume "a \<in> set (matching_products cfg h v ''credit_products'' @
                     matching_products cfg h v ''leasing_products'')"
  then have "a \<in> set (matching_products cfg h v ''leasing_products'') \<or>
      a \<in> set (matching_products cfg h v ''credit_products'')"
    by auto
  then show "dict_get (catalog_after cfg h v a) ''type'' = Some (JStr ''credit'') \<or>
      dict_get (catalog_after cfg h v a) ''type'' = Some (JStr ''leasing'')"
    unfolding catalog_after_key
    by (cases "a \<in> set (matching_products cfg h v ''leasing_products'')") simp_all
next
  have "catalog_well_formed cfg (catalog_after cfg h v)"
    using assms by (simp add: catalog_after_stable)
  then show "get_available_products cfg v c (catalog_after cfg h v) =
      Inr (catalog_after cfg h v,
           matching_products cfg h v ''credit_products'' @
           matching_products cfg h v ''leasing_products'')"
    using catalog_value [of cfg "catalog_after cfg h v" v c]
    by (simp add: catalog_after_stable catalog_after_idem)
qed

theorem available_products_pure_except_type_witness:
  "catalog_well_formed default_configurator default_heap \<and>
   get_available_products default_configurator new_car example_client default_heap =
     Inr (catalog_after default_configurator default_heap new_car, [0, 1, 2]) \<and>
   catalog_after default_configurator default_heap new_car 3 = default_heap 3 \<and>
   dict_get (catalog_after default_configurator default_heap new_car 0) ''id'' =
     Some (JStr ''credit_std'') \<and>
   get_available_products default_configurator new_car example_client
       (catalog_after default_configurator default_heap new_car) =
     Inr (catalog_after default_configurator default_heap new_car, [0, 1, 2])"
proof -
  have k: "dict_get (default_heap 0) ''id'' = Some (JStr ''credit_std'')"
    by (simp add: default_heap_at credit_std_def dict_get_def)
  show ?thesis
    using available_products_pure_except_type
        [OF default_catalog_well_formed, of new_car example_client]
      default_catalog_well_formed k
    unfolding default_matching_new
    by simp
qed

text \<open>
  C9 as stated fails: on the default catalog, a call for a new vehicle priced 1,000,000 adds
  the key \<open>type\<close> to the stored standard credit product, which had none.
\<close>

theorem available_products_writes_type:
  "get_available_products default_configurator new_car example_client default_heap =
     Inr (catalog_after default_configurator default_heap new_car, [0, 1, 2]) \<and>
   dict_get (default_heap 0) ''type'' = None \<and>
   dict_get (catalog_after default_configurator default_heap new_car 0) ''type'' =
     Some (JStr ''credit'')"
proof -
  have "get_available_products default_configurator new_car example_client default_heap =
      Inr (catalog_after default_configurator default_heap new_car, [0, 1, 2])"
    using catalog_value [OF default_catalog_well_formed, of new_car example_client]
    unfolding default_matching_new by simp
  moreover have "dict_get (default_heap 0) ''type'' = None"
    by (simp add: default_heap_at credit_std_def dict_get_def)
  moreover have "dict_get (catalog_after default_configurator default_heap new_car 0) ''type'' =
      Some (JStr ''credit'')"
    by (simp add: catalog_after_key default_matching_new)
  ultimately show ?thesis by (intro conjI)
qed

end
